theory Spec2Isabelle
  imports Main "HOL-Library.Word"
begin

section \<open>Data model of jail.hpp\<close>

text \<open>
  The enumerations and structs of the header. \<open>MountInfo::type\<close> is called \<open>fstype\<close>
  here; the trailing underscore of the private members of \<open>JailManager\<close> is dropped.
\<close>

datatype JailStatus = STOPPED | STARTING | RUNNING | STOPPING | ERROR

record MountInfo =
  source :: string
  target :: string
  fstype :: string
  options :: string

text \<open>The parts of \<open>EnvironmentConfig\<close> (config.hpp) that \<open>JailManager\<close> reads.
  \<open>long\<close> is 64 bits and \<open>int\<close> 32 bits on the x86-64 target of the code.\<close>

record SshConfig =
  port :: int
  listen_address :: string

record ResourceLimits =
  max_cpu_time :: "64 word"
  max_memory :: "64 word"
  max_file_size :: "64 word"
  max_processes :: "32 word"
  max_open_files :: "32 word"

record EnvironmentConfig =
  name :: string
  ssh :: SshConfig
  limits :: ResourceLimits

text \<open>The exceptions that reach a handler of the class: \<open>JailError\<close> (utils.hpp),
  the \<open>std::runtime_error\<close> of \<open>FileUtils::read\<close>, and the \<open>filesystem_error\<close> of a
  failed \<open>create_directories\<close> or \<open>remove_all\<close>. All derive from \<open>std::exception\<close>.\<close>

datatype exn = JailError string | RuntimeError string | FilesystemError string

fun what :: "exn \<Rightarrow> string" where
  "what (JailError m) = m"
| "what (RuntimeError m) = m"
| "what (FilesystemError m) = m"

text \<open>
  Everything the manager does to the outside is recorded, in program order, in a trace:
  the calls of the logger callback and the system and library calls that change the
  system. Results that the code reads are part of the event.
\<close>

datatype umount_result = Unmounted | Failed int

datatype event =
    Log string string
  | SysMount string string string int
  | SysUmount string umount_result
  | SysSleepMs nat
  | SysFork int
  | SysKill int
  | SysWaitpid int
  | SysSetrlimit string "64 word"
  | FsCreateDirectories string
  | FsRemoveAll string
  | FsWrite string
  | SysChmod string
  | SysMknod string char nat nat

definition EBUSY :: int where
  "EBUSY = 16"

datatype child_status = ExitedWith int | NotExited

text \<open>
  The answers of the operating system during one call of a public method. \<open>path_exists\<close>
  is \<open>std::filesystem::exists\<close>, taken to answer true or false. \<open>umount_errno\<close> answers
  the n-th \<open>umount\<close> call made so far (counted over the trace): \<open>Unmounted\<close> when it
  returns 0, \<open>Failed e\<close> when it returns non-zero with \<open>errno = e\<close>. The \<open>fork_\<close> fields
  are what each \<open>fork()\<close> of the class returns to the process that runs the model.
\<close>

record os =
  path_exists :: "string \<Rightarrow> bool"
  mount_ret :: "string \<Rightarrow> int"
  umount_errno :: "nat \<Rightarrow> umount_result"
  fork_sshd :: int
  fork_init :: int
  fork_cleanup :: int
  fork_exec :: int
  exec_status :: child_status
  mkdir_ok :: "string \<Rightarrow> bool"
  remove_all_ok :: bool
  readable :: "string \<Rightarrow> bool"
  now :: nat

text \<open>
  The members of \<open>JailManager\<close>. \<open>mutex\<close> is true while \<open>mutex_\<close> is locked, \<open>logger\<close>
  is true when a callback has been set, and \<open>trace\<close> is the record of effects (not a
  member of the class).
\<close>

record JailManager =
  config :: EnvironmentConfig
  jail_path :: string
  data_path :: string
  run_path :: string
  status :: JailStatus
  sshd_pid :: int
  start_time :: nat
  active_mounts :: "MountInfo list"
  mutex :: bool
  logger :: bool
  trace :: "event list"

definition new_JailManager :: "EnvironmentConfig \<Rightarrow> JailManager" where
  "new_JailManager cfg =
     \<lparr> config = cfg,
       jail_path = ''/var/lib/agi/jails/'' @ name cfg,
       data_path = ''/var/lib/agi/jails/'' @ name cfg @ ''/data'',
       run_path = ''/var/lib/agi/jails/'' @ name cfg @ ''/run'',
       status = STOPPED,
       sshd_pid = - 1,
       start_time = 0,
       active_mounts = [],
       mutex = False,
       logger = False,
       trace = [] \<rparr>"

definition setLogger :: "bool \<Rightarrow> JailManager \<Rightarrow> JailManager" where
  "setLogger l s = s\<lparr>logger := l\<rparr>"

definition emit :: "event \<Rightarrow> JailManager \<Rightarrow> JailManager" where
  "emit e s = s\<lparr>trace := trace s @ [e]\<rparr>"

definition log :: "string \<Rightarrow> string \<Rightarrow> JailManager \<Rightarrow> JailManager" where
  "log level message s = (if logger s then emit (Log level message) s else s)"

section \<open>Outcomes of a call\<close>

text \<open>
  A call returns a value, leaves by an exception, blocks on \<open>mutex_\<close> (for ever when the
  thread that holds it is the caller itself), or continues in a forked child that replaces
  itself by \<open>exec\<close> or exits and so never comes back to the caller. Each outcome carries
  the state of the manager at that point.
\<close>

datatype 'a outcome =
    Returned 'a JailManager
  | Threw exn JailManager
  | Blocked JailManager
  | InChild JailManager

fun state_of :: "'a outcome \<Rightarrow> JailManager" where
  "state_of (Returned v s) = s"
| "state_of (Threw e s) = s"
| "state_of (Blocked s) = s"
| "state_of (InChild s) = s"

fun and_then :: "'a outcome \<Rightarrow> (JailManager \<Rightarrow> 'b outcome) \<Rightarrow> 'b outcome" where
  "and_then (Returned v s) f = f s"
| "and_then (Threw e s) f = Threw e s"
| "and_then (Blocked s) f = Blocked s"
| "and_then (InChild s) f = InChild s"

text \<open>
  \<open>std::lock_guard<std::mutex> lock(mutex_)\<close>: \<open>std::mutex\<close> is not recursive, so locking
  it while it is locked does not come back. The guard unlocks when the scope is left by
  a return or by an exception.
\<close>

fun release :: "'a outcome \<Rightarrow> 'a outcome" where
  "release (Returned v s) = Returned v (s\<lparr>mutex := False\<rparr>)"
| "release (Threw e s) = Threw e (s\<lparr>mutex := False\<rparr>)"
| "release (Blocked s) = Blocked s"
| "release (InChild s) = InChild s"

definition lock_guard :: "JailManager \<Rightarrow> (JailManager \<Rightarrow> 'a outcome) \<Rightarrow> 'a outcome" where
  "lock_guard s body = (if mutex s then Blocked s else release (body (s\<lparr>mutex := True\<rparr>)))"

section \<open>Teardown\<close>

text \<open>The inner \<open>while (retries > 0)\<close> loop of \<open>unmountAll\<close> for one record.\<close>

definition umount_count :: "event list \<Rightarrow> nat" where
  "umount_count tr = length (filter (\<lambda>e. case e of SysUmount t r \<Rightarrow> True | _ \<Rightarrow> False) tr)"

fun umount_retry :: "os \<Rightarrow> nat \<Rightarrow> MountInfo \<Rightarrow> JailManager \<Rightarrow> JailManager" where
  "umount_retry w 0 m s = s"
| "umount_retry w (Suc retries) m s =
     (let r = umount_errno w (umount_count (trace s));
          s1 = emit (SysUmount (target m) r) s
      in case r of
           Unmounted \<Rightarrow> log ''DEBUG'' (''Unmounting: '' @ target m) s1
         | Failed e \<Rightarrow>
             if e = EBUSY then umount_retry w retries m (emit (SysSleepMs 100) s1)
             else s1)"

definition unmountAll :: "os \<Rightarrow> JailManager \<Rightarrow> JailManager" where
  "unmountAll w s =
     (foldl (\<lambda>s' m. umount_retry w 3 m s') s (rev (active_mounts s)))\<lparr>active_mounts := []\<rparr>"

definition stopSshd :: "JailManager \<Rightarrow> JailManager" where
  "stopSshd s =
     (if sshd_pid s > 0 then
        log ''DEBUG'' ''SSH process has been stopped''
          ((emit (SysWaitpid (sshd_pid s)) (emit (SysKill (sshd_pid s)) s))\<lparr>sshd_pid := - 1\<rparr>)
      else s)"

definition runCleanupScript :: "os \<Rightarrow> JailManager \<Rightarrow> unit outcome" where
  "runCleanupScript w s =
     (if path_exists w (jail_path s @ ''/usr/share/agi/cleanup.sh'') then
        (let pid = fork_cleanup w; s1 = emit (SysFork pid) s
         in if pid = 0 then InChild s1
            else if pid > 0 then Returned () (emit (SysWaitpid pid) s1)
            else Returned () s1)
      else Returned () s)"

definition stop_try :: "os \<Rightarrow> JailManager \<Rightarrow> bool outcome" where
  "stop_try w s =
     and_then
       (runCleanupScript w
          (stopSshd ((log ''INFO'' (''Stopping jail environment: '' @ name (config s)) s)
                       \<lparr>status := STOPPING\<rparr>)))
       (\<lambda>s1. Returned True
                (log ''INFO'' (''Jail environment has been stopped: '' @ name (config s1))
                   ((unmountAll w s1)\<lparr>status := STOPPED\<rparr>)))"

definition stop :: "os \<Rightarrow> JailManager \<Rightarrow> bool outcome" where
  "stop w s =
     lock_guard s (\<lambda>s.
       if status s = STOPPED then Returned True s
       else case stop_try w s of
              Threw e s1 \<Rightarrow>
                Returned False
                  (log ''ERROR'' (''Failed to stop jail: '' @ what e) (s1\<lparr>status := ERROR\<rparr>))
            | r \<Rightarrow> r)"

definition destroy_try :: "os \<Rightarrow> JailManager \<Rightarrow> bool outcome" where
  "destroy_try w s =
     and_then (stop w s) (\<lambda>s1.
       let s2 = unmountAll w (log ''INFO'' (''Destroying jail environment: '' @ name (config s1)) s1)
       in and_then
            (if path_exists w (jail_path s2) then
               (if remove_all_ok w then Returned () (emit (FsRemoveAll (jail_path s2)) s2)
                else Threw (FilesystemError ''filesystem error: cannot remove all'') s2)
             else Returned () s2)
            (\<lambda>s3. Returned True
                     (log ''INFO'' (''Jail environment has been destroyed: '' @ name (config s3)) s3)))"

definition destroy :: "os \<Rightarrow> JailManager \<Rightarrow> bool outcome" where
  "destroy w s =
     lock_guard s (\<lambda>s.
       case destroy_try w s of
         Threw e s1 \<Rightarrow> Returned False (log ''ERROR'' (''Failed to destroy jail: '' @ what e) s1)
       | r \<Rightarrow> r)"

section \<open>Start\<close>

text \<open>\<open>std::to_string\<close> on an integer: decimal digits, with a minus sign when negative.\<close>

definition digit :: "nat \<Rightarrow> char" where
  "digit d = char_of (of_char (CHR ''0'') + d)"

function decimal :: "nat \<Rightarrow> string" where
  "decimal n = (if n div 10 = 0 then [digit n] else decimal (n div 10) @ [digit (n mod 10)])"
  by pat_completeness auto
termination
  by (relation "measure id") auto

declare decimal.simps [simp del]

definition to_string :: "int \<Rightarrow> string" where
  "to_string i = (if i < 0 then CHR ''-'' # decimal (nat (- i)) else decimal (nat i))"

definition setResourceLimits :: "JailManager \<Rightarrow> JailManager" where
  "setResourceLimits s =
     (let l = limits (config s);
          s1 = emit (SysSetrlimit ''RLIMIT_CPU'' (max_cpu_time l)) s;
          s2 = emit (SysSetrlimit ''RLIMIT_AS'' (max_memory l * 1024)) s1;
          s3 = emit (SysSetrlimit ''RLIMIT_FSIZE'' (max_file_size l * 1024)) s2;
          s4 = emit (SysSetrlimit ''RLIMIT_NPROC'' (scast (max_processes l))) s3
      in emit (SysSetrlimit ''RLIMIT_NOFILE'' (scast (max_open_files l))) s4)"

definition addMountInfo :: "string \<Rightarrow> string \<Rightarrow> string \<Rightarrow> string \<Rightarrow> JailManager \<Rightarrow> JailManager" where
  "addMountInfo src tgt ty opts s =
     s\<lparr>active_mounts :=
         active_mounts s @ [\<lparr>source = src, target = tgt, fstype = ty, options = opts\<rparr>]\<rparr>"

text \<open>\<open>mount(source, target, type, ...)\<close>: the return value is not read by the caller.\<close>

definition sys_mount :: "os \<Rightarrow> string \<Rightarrow> string \<Rightarrow> string \<Rightarrow> JailManager \<Rightarrow> JailManager" where
  "sys_mount w src tgt ty s = emit (SysMount src tgt ty (mount_ret w tgt)) s"

definition mountFilesystems :: "os \<Rightarrow> JailManager \<Rightarrow> JailManager" where
  "mountFilesystems w s =
     (let p = jail_path s;
          s1 = addMountInfo ''proc'' (p @ ''/proc'') ''proc'' []
                 (sys_mount w ''proc'' (p @ ''/proc'') ''proc'' s);
          s2 = addMountInfo ''sysfs'' (p @ ''/sys'') ''sysfs'' []
                 (sys_mount w ''sysfs'' (p @ ''/sys'') ''sysfs'' s1);
          s3 = addMountInfo ''devpts'' (p @ ''/dev/pts'') ''devpts'' ''gid=5,mode=620''
                 (sys_mount w ''devpts'' (p @ ''/dev/pts'') ''devpts'' s2);
          s4 = addMountInfo ''/tmp'' (p @ ''/tmp'') ''none'' ''bind''
                 (sys_mount w ''/tmp'' (p @ ''/tmp'') ''none'' s3)
      in log ''DEBUG'' ''Filesystem mounting completed'' s4)"

text \<open>\<open>startSshd\<close> computes \<open>sshd_path\<close> from an existence test and never uses it; the
  model leaves the variable out.\<close>

definition startSshd :: "os \<Rightarrow> JailManager \<Rightarrow> unit outcome" where
  "startSshd w s =
     (let pid = fork_sshd w; s1 = emit (SysFork pid) s
      in if pid = 0 then InChild s1
         else if pid > 0 then
           Returned () (log ''DEBUG'' (''SSH process started: PID '' @ to_string pid)
                          (s1\<lparr>sshd_pid := pid\<rparr>))
         else Threw (JailError ''Cannot start SSH'') s1)"

definition runInitScript :: "os \<Rightarrow> JailManager \<Rightarrow> unit outcome" where
  "runInitScript w s =
     (if path_exists w (jail_path s @ ''/usr/share/agi/init.sh'') then
        (let pid = fork_init w; s1 = emit (SysFork pid) s
         in if pid = 0 then InChild s1
            else if pid > 0 then Returned () (emit (SysWaitpid pid) s1)
            else Returned () s1)
      else Returned () s)"

definition start_try :: "os \<Rightarrow> JailManager \<Rightarrow> bool outcome" where
  "start_try w s =
     (let s0 = (log ''INFO'' (''Starting jail environment: '' @ name (config s)) s)
                 \<lparr>status := STARTING\<rparr>
      in if \<not> path_exists w (jail_path s0) then
           Threw (JailError ''Jail directory does not exist, please create it first'') s0
         else
           and_then (startSshd w (mountFilesystems w (setResourceLimits s0))) (\<lambda>s1.
           and_then (runInitScript w s1) (\<lambda>s2.
             Returned True
               (log ''INFO'' (''Jail environment has been started: '' @ name (config s2)
                              @ '' (SSH port: '' @ to_string (port (ssh (config s2))) @ '')'')
                  (s2\<lparr>status := RUNNING, start_time := now w\<rparr>)))))"

definition start :: "os \<Rightarrow> JailManager \<Rightarrow> bool outcome" where
  "start w s =
     lock_guard s (\<lambda>s.
       if status s = RUNNING then Returned True (log ''WARN'' ''Jail is already running'' s)
       else case start_try w s of
              Threw e s1 \<Rightarrow>
                Returned False
                  (log ''ERROR'' (''Failed to start jail: '' @ what e) (s1\<lparr>status := ERROR\<rparr>))
            | r \<Rightarrow> r)"

section \<open>Execute and the accessors\<close>

text \<open>\<open>execute\<close> takes no lock and has no handler.\<close>

definition execute :: "os \<Rightarrow> string \<Rightarrow> JailManager \<Rightarrow> string outcome" where
  "execute w command s =
     (if status s \<noteq> RUNNING then
        Threw (JailError ''Jail is not running, cannot execute command'') s
      else
        (let pid = fork_exec w; s1 = emit (SysFork pid) s
         in if pid = 0 then InChild s1
            else if pid > 0 then
              (let s2 = emit (SysWaitpid pid) s1
               in case exec_status w of
                    ExitedWith c \<Rightarrow>
                      if c = 0 then Returned ''Command executed successfully'' s2
                      else Returned (''Command execution failed (exit code: ''
                                     @ to_string c @ '')'') s2
                  | NotExited \<Rightarrow> Returned ''Command was interrupted by signal'' s2)
            else Threw (JailError ''Cannot create child process'') s1))"



definition getStatus :: "JailManager \<Rightarrow> JailStatus" where
  "getStatus s = status s"

section \<open>Create\<close>

text \<open>\<open>PathUtils::normalize\<close> (here \<open>normalize_path\<close>) and \<open>PathUtils::parent\<close> (utils.hpp).\<close>

fun normalize_loop :: "bool \<Rightarrow> string \<Rightarrow> string" where
  "normalize_loop lastWasSlash [] = []"
| "normalize_loop lastWasSlash (c # cs) =
     (if c = CHR ''/'' then
        (if \<not> lastWasSlash then c # normalize_loop True cs else normalize_loop True cs)
      else c # normalize_loop False cs)"

definition normalize_path :: "string \<Rightarrow> string" where
  "normalize_path path =
     (let result = normalize_loop False path
      in if result \<noteq> [] \<and> last result = CHR ''/'' \<and> length result > 1 then butlast result
         else result)"

definition parent :: "string \<Rightarrow> string" where
  "parent path =
     (let normalized = normalize_path path
      in if CHR ''/'' \<notin> set normalized then ''.''
         else rev (tl (dropWhile (\<lambda>c. c \<noteq> CHR ''/'') (rev normalized))))"

text \<open>
  \<open>std::filesystem::create_directories\<close> throws \<open>filesystem_error\<close> when it fails; the
  text of the message is the library's. The content written by \<open>FileUtils::write\<close> is
  left out of the trace; its boolean result is never read by the class.
\<close>

definition create_directories :: "os \<Rightarrow> string \<Rightarrow> JailManager \<Rightarrow> unit outcome" where
  "create_directories w d s =
     (if mkdir_ok w d then Returned () (emit (FsCreateDirectories d) s)
      else Threw (FilesystemError (''filesystem error: cannot create directories: '' @ d)) s)"

fun for_each :: "('a \<Rightarrow> JailManager \<Rightarrow> unit outcome) \<Rightarrow> 'a list \<Rightarrow> JailManager \<Rightarrow> unit outcome" where
  "for_each f [] s = Returned () s"
| "for_each f (x # xs) s = and_then (f x s) (for_each f xs)"

definition dirs :: "JailManager \<Rightarrow> string list" where
  "dirs s =
     [jail_path s, data_path s, run_path s,
      jail_path s @ ''/bin'', jail_path s @ ''/sbin'', jail_path s @ ''/usr'',
      jail_path s @ ''/usr/bin'', jail_path s @ ''/usr/sbin'', jail_path s @ ''/lib'',
      jail_path s @ ''/lib64'', jail_path s @ ''/etc'', jail_path s @ ''/home'',
      jail_path s @ ''/root'', jail_path s @ ''/tmp'', jail_path s @ ''/var'',
      jail_path s @ ''/var/log'', jail_path s @ ''/var/run'', jail_path s @ ''/proc'',
      jail_path s @ ''/sys'', jail_path s @ ''/dev'', jail_path s @ ''/dev/pts'',
      jail_path s @ ''/usr/share/agi'']"

definition createDirectoryStructure :: "os \<Rightarrow> JailManager \<Rightarrow> unit outcome" where
  "createDirectoryStructure w s =
     for_each
       (\<lambda>dir s1.
          if \<not> path_exists w dir then
            and_then (create_directories w dir s1)
              (\<lambda>s2. Returned () (log ''DEBUG'' (''Creating directory: '' @ dir) s2))
          else Returned () s1)
       (dirs s) s"

definition essential_bins :: "string list" where
  "essential_bins =
     [''/bin/bash'', ''/bin/ls'', ''/bin/cat'', ''/bin/mkdir'', ''/bin/rm'', ''/bin/echo'',
      ''/bin/sleep'', ''/usr/bin/whoami'']"

definition copyBinary :: "os \<Rightarrow> string \<Rightarrow> JailManager \<Rightarrow> unit outcome" where
  "copyBinary w path s =
     (let dest = jail_path s @ path; par = parent dest
      in and_then
           (if \<not> path_exists w par then create_directories w par s else Returned () s)
           (\<lambda>s1.
              case (if readable w path then
                      Returned ()
                        (log ''DEBUG'' (''Copying binary: '' @ path @ '' -> '' @ dest)
                           (emit (SysChmod dest) (emit (FsWrite dest) s1)))
                    else Threw (RuntimeError (''Cannot open file: '' @ path)) s1) of
                Threw e s2 \<Rightarrow>
                  Returned ()
                    (log ''WARN'' (''Cannot copy binary: '' @ path @ '' - '' @ what e) s2)
              | r \<Rightarrow> r))"

definition libs :: "string list" where
  "libs =
     [''/lib/x86_64-linux-gnu/libc.so.6'', ''/lib/x86_64-linux-gnu/libdl.so.2'',
      ''/lib/x86_64-linux-gnu/libtinfo.so.6'', ''/lib/x86_64-linux-gnu/libpthread.so.0'',
      ''/lib64/ld-linux-x86-64.so.2'']"

definition copyEssentialLibraries :: "os \<Rightarrow> JailManager \<Rightarrow> unit outcome" where
  "copyEssentialLibraries w s =
     for_each
       (\<lambda>lib s1.
          if path_exists w lib then
            (let dest = jail_path s1 @ lib; par = parent dest
             in and_then
                  (if \<not> path_exists w par then create_directories w par s1
                   else Returned () s1)
                  (\<lambda>s2.
                     case (if readable w lib then
                             Returned ()
                               (log ''DEBUG'' (''Copying library: '' @ lib)
                                  (emit (FsWrite dest) s2))
                           else Threw (RuntimeError (''Cannot open file: '' @ lib)) s2) of
                       Threw e s3 \<Rightarrow> Returned () s3
                     | r \<Rightarrow> r))
          else Returned () s1)
       libs s"

definition copyBaseSystem :: "os \<Rightarrow> JailManager \<Rightarrow> unit outcome" where
  "copyBaseSystem w s =
     and_then (for_each (copyBinary w) essential_bins s) (copyEssentialLibraries w)"

definition createDeviceNode :: "os \<Rightarrow> string \<Rightarrow> char \<Rightarrow> nat \<Rightarrow> nat \<Rightarrow> JailManager \<Rightarrow> JailManager" where
  "createDeviceNode w path ty major minor s =
     (if path_exists w path then s else emit (SysMknod path ty major minor) s)"

definition createDeviceNodes :: "os \<Rightarrow> JailManager \<Rightarrow> JailManager" where
  "createDeviceNodes w s =
     (let s1 = createDeviceNode w (jail_path s @ ''/dev/null'') (CHR ''c'') 1 3 s;
          s2 = createDeviceNode w (jail_path s @ ''/dev/zero'') (CHR ''c'') 1 5 s1;
          s3 = createDeviceNode w (jail_path s @ ''/dev/random'') (CHR ''c'') 1 8 s2;
          s4 = createDeviceNode w (jail_path s @ ''/dev/urandom'') (CHR ''c'') 1 9 s3
      in createDeviceNode w (jail_path s @ ''/dev/tty'') (CHR ''c'') 5 0 s4)"

definition generateSshConfig :: "os \<Rightarrow> JailManager \<Rightarrow> unit outcome" where
  "generateSshConfig w s =
     (let ssh_dir = jail_path s @ ''/etc/ssh''
      in and_then
           (if \<not> path_exists w ssh_dir then create_directories w ssh_dir s
            else Returned () s)
           (\<lambda>s1. Returned ()
                    (log ''DEBUG'' ''Generating SSH configuration''
                       (emit (FsWrite (ssh_dir @ ''/sshd_config'')) s1))))"

definition createInitScripts :: "JailManager \<Rightarrow> JailManager" where
  "createInitScripts s =
     emit (SysChmod (jail_path s @ ''/usr/share/agi/init.sh''))
       (emit (FsWrite (jail_path s @ ''/usr/share/agi/init.sh'')) s)"

definition create_try :: "os \<Rightarrow> JailManager \<Rightarrow> bool outcome" where
  "create_try w s =
     and_then
       (createDirectoryStructure w
          (log ''INFO'' (''Starting to create jail environment: '' @ name (config s)) s))
       (\<lambda>s1. and_then (copyBaseSystem w s1)
       (\<lambda>s2. and_then (generateSshConfig w (createDeviceNodes w s2))
       (\<lambda>s3. Returned True
                (log ''INFO'' (''Jail environment created successfully: '' @ jail_path s3)
                   (createInitScripts s3)))))"

definition create :: "os \<Rightarrow> JailManager \<Rightarrow> bool outcome" where
  "create w s =
     lock_guard s (\<lambda>s.
       case create_try w s of
         Threw e s1 \<Rightarrow> Returned False (log ''ERROR'' (''Failed to create jail: '' @ what e) s1)
       | r \<Rightarrow> r)"

section \<open>Reachable states\<close>

text \<open>
  The states a manager can be in between calls of its public methods: it is constructed,
  and then any method is called with any answers of the system. A call that continues in
  a forked child does not come back to a caller, so the copy of the manager in the child
  is not a state of the manager. A blocked call changes nothing but the mutex.
\<close>

fun in_child :: "'a outcome \<Rightarrow> bool" where
  "in_child (InChild s) = True"
| "in_child r = False"

fun returned :: "'a outcome \<Rightarrow> 'a option" where
  "returned (Returned v s) = Some v"
| "returned r = None"


section \<open>Observations on the trace\<close>

text \<open>The events a call added, the targets of the \<open>umount\<close> calls in a trace, and the
  trace without the calls of the logger.\<close>

definition new_events :: "JailManager \<Rightarrow> JailManager \<Rightarrow> event list" where
  "new_events s s' = drop (length (trace s)) (trace s')"

fun umount_targets :: "event list \<Rightarrow> string list" where
  "umount_targets [] = []"
| "umount_targets (SysUmount t r # es) = t # umount_targets es"
| "umount_targets (e # es) = umount_targets es"

fun is_log :: "event \<Rightarrow> bool" where
  "is_log (Log l m) = True"
| "is_log e = False"

definition syscalls :: "event list \<Rightarrow> event list" where
  "syscalls tr = filter (\<lambda>e. \<not> is_log e) tr"

text \<open>Concrete inputs: a configuration, and a system where everything succeeds.\<close>

definition cfg_dev :: EnvironmentConfig where
  "cfg_dev =
     \<lparr> name = ''dev'',
       ssh = \<lparr> port = 2201, listen_address = ''127.0.0.1'' \<rparr>,
       limits = \<lparr> max_cpu_time = 300, max_memory = 524288, max_file_size = 1048576,
                  max_processes = 64, max_open_files = 256 \<rparr> \<rparr>"

definition os_ok :: os where
  "os_ok =
     \<lparr> path_exists = (\<lambda>p. True),
       mount_ret = (\<lambda>t. 0),
       umount_errno = (\<lambda>n. Unmounted),
       fork_sshd = 4242,
       fork_init = 4243,
       fork_cleanup = 4244,
       fork_exec = 4245,
       exec_status = ExitedWith 0,
       mkdir_ok = (\<lambda>p. True),
       remove_all_ok = True,
       readable = (\<lambda>p. True),
       now = 1000 \<rparr>"

text \<open>The four records that one run of \<open>mountFilesystems\<close> appends, in its order.\<close>

definition fixed_mounts :: "string \<Rightarrow> MountInfo list" where
  "fixed_mounts p =
     [\<lparr>source = ''proc'', target = p @ ''/proc'', fstype = ''proc'', options = []\<rparr>,
      \<lparr>source = ''sysfs'', target = p @ ''/sys'', fstype = ''sysfs'', options = []\<rparr>,
      \<lparr>source = ''devpts'', target = p @ ''/dev/pts'', fstype = ''devpts'',
        options = ''gid=5,mode=620''\<rparr>,
      \<lparr>source = ''/tmp'', target = p @ ''/tmp'', fstype = ''none'', options = ''bind''\<rparr>]"


text \<open>Further concrete inputs.\<close>

definition os_no_root :: os where
  "os_no_root = os_ok\<lparr>path_exists := (\<lambda>p. False)\<rparr>"





definition os_no_files :: os where
  "os_no_files = os_ok\<lparr>readable := (\<lambda>p. False), path_exists := (\<lambda>p. False)\<rparr>"


text \<open>The jail \<open>dev\<close> after a \<open>start()\<close> in which everything succeeded.\<close>

definition running_dev :: JailManager where
  "running_dev = state_of (start os_ok (new_JailManager cfg_dev))"

text \<open>\<open>appends s s'\<close>: the state \<open>s'\<close> is \<open>s\<close> with events added at the end of the trace and
  nothing else changed. \<open>warns\<close> lists the messages logged at level WARN.\<close>

definition appends :: "JailManager \<Rightarrow> JailManager \<Rightarrow> bool" where
  "appends s s' \<longleftrightarrow> s' = s\<lparr>trace := trace s @ new_events s s'\<rparr>"

fun warns :: "event list \<Rightarrow> string list" where
  "warns [] = []"
| "warns (Log l m # es) = (if l = ''WARN'' then m # warns es else warns es)"
| "warns (e # es) = warns es"



text \<open>\<open>proceeds s r ws\<close>: the step \<open>r\<close>, started in \<open>s\<close>, returns normally, only appends to the
  trace, and logs exactly the warnings \<open>ws\<close>.\<close>

definition proceeds :: "JailManager \<Rightarrow> 'a outcome \<Rightarrow> string list \<Rightarrow> bool" where
  "proceeds s r ws \<longleftrightarrow>
     returned r \<noteq> None \<and> appends s (state_of r) \<and> warns (new_events s (state_of r)) = ws"

definition copy_warning :: "string \<Rightarrow> string" where
  "copy_warning path = ''Cannot copy binary: '' @ path @ '' - Cannot open file: '' @ path"

section \<open>Basic facts about the trace and the teardown loop\<close>

lemma trace_emit [simp]: "trace (emit e s) = trace s @ [e]"
  by (simp add: emit_def)

lemma trace_log: "trace (log l m s) = trace s @ (if logger s then [Log l m] else [])"
  by (simp add: log_def)

text \<open>Closed forms of the helpers: each one appends to the trace and changes at most one
  member.\<close>

lemma log_eq: "log l m s = s\<lparr>trace := trace s @ (if logger s then [Log l m] else [])\<rparr>"
  by (simp add: log_def emit_def)

lemma setResourceLimits_eq:
  "setResourceLimits s =
     s\<lparr>trace := trace s @
        [SysSetrlimit ''RLIMIT_CPU'' (max_cpu_time (limits (config s))),
         SysSetrlimit ''RLIMIT_AS'' (max_memory (limits (config s)) * 1024),
         SysSetrlimit ''RLIMIT_FSIZE'' (max_file_size (limits (config s)) * 1024),
         SysSetrlimit ''RLIMIT_NPROC'' (scast (max_processes (limits (config s)))),
         SysSetrlimit ''RLIMIT_NOFILE'' (scast (max_open_files (limits (config s))))]\<rparr>"
  by (simp add: setResourceLimits_def emit_def Let_def)

lemma mountFilesystems_eq:
  "mountFilesystems w s =
     s\<lparr>active_mounts := active_mounts s @ fixed_mounts (jail_path s),
       trace := trace s @
         [SysMount ''proc'' (jail_path s @ ''/proc'') ''proc'' (mount_ret w (jail_path s @ ''/proc'')),
          SysMount ''sysfs'' (jail_path s @ ''/sys'') ''sysfs'' (mount_ret w (jail_path s @ ''/sys'')),
          SysMount ''devpts'' (jail_path s @ ''/dev/pts'') ''devpts''
            (mount_ret w (jail_path s @ ''/dev/pts'')),
          SysMount ''/tmp'' (jail_path s @ ''/tmp'') ''none'' (mount_ret w (jail_path s @ ''/tmp''))]
         @ (if logger s then [Log ''DEBUG'' ''Filesystem mounting completed''] else [])\<rparr>"
  by (simp add: mountFilesystems_def sys_mount_def addMountInfo_def emit_def log_eq Let_def
      fixed_mounts_def)

lemma startSshd_eq:
  "startSshd w s =
     (if fork_sshd w = 0 then InChild (s\<lparr>trace := trace s @ [SysFork (fork_sshd w)]\<rparr>)
      else if fork_sshd w > 0 then
        Returned ()
          (s\<lparr>sshd_pid := fork_sshd w,
             trace := trace s @ SysFork (fork_sshd w)
               # (if logger s
                  then [Log ''DEBUG'' (''SSH process started: PID '' @ to_string (fork_sshd w))]
                  else [])\<rparr>)
      else Threw (JailError ''Cannot start SSH'')
             (s\<lparr>trace := trace s @ [SysFork (fork_sshd w)]\<rparr>))"
  by (simp add: startSshd_def emit_def log_eq Let_def)

lemma runInitScript_eq:
  "runInitScript w s =
     (if path_exists w (jail_path s @ ''/usr/share/agi/init.sh'') then
        (if fork_init w = 0 then InChild (s\<lparr>trace := trace s @ [SysFork (fork_init w)]\<rparr>)
         else if fork_init w > 0 then
           Returned ()
             (s\<lparr>trace := trace s @ [SysFork (fork_init w), SysWaitpid (fork_init w)]\<rparr>)
         else Returned () (s\<lparr>trace := trace s @ [SysFork (fork_init w)]\<rparr>))
      else Returned () s)"
  by (simp add: runInitScript_def emit_def Let_def)



lemma umount_targets_append: "umount_targets (xs @ ys) = umount_targets xs @ umount_targets ys"
  by (induction xs rule: umount_targets.induct) simp_all

lemma stop_blocked: "mutex s \<Longrightarrow> stop w s = Blocked s"
  by (simp add: stop_def lock_guard_def)

text \<open>One run of the retry loop only appends to the trace: between one and \<open>n\<close> calls of
  \<open>umount\<close>, all on the target of the record.\<close>

lemma umount_retry_trace:
  "\<exists>evs k. trace (umount_retry w n m s) = trace s @ evs
         \<and> umount_targets evs = replicate k (target m) \<and> k \<le> n \<and> (0 < n \<longrightarrow> 1 \<le> k)"
proof (induction n arbitrary: s)
  case 0
  show ?case by (rule exI [of _ "[]"], rule exI [of _ 0]) simp
next
  case (Suc n)
  let ?r = "umount_errno w (umount_count (trace s))"
  let ?s1 = "emit (SysUmount (target m) ?r) s"
  show ?case
  proof (cases ?r)
    case Unmounted
    let ?evs = "SysUmount (target m) Unmounted
                # (if logger s then [Log ''DEBUG'' (''Unmounting: '' @ target m)] else [])"
    from Unmounted have "trace (umount_retry w (Suc n) m s) = trace s @ ?evs"
      by (simp add: Let_def trace_log emit_def)
    then show ?thesis
      by (intro exI [of _ ?evs] exI [of _ 1]) simp
  next
    case (Failed e)
    show ?thesis
    proof (cases "e = EBUSY")
      case True
      from Suc.IH [of "emit (SysSleepMs 100) ?s1"]
      obtain evs k where
        t: "trace (umount_retry w n m (emit (SysSleepMs 100) ?s1))
            = trace (emit (SysSleepMs 100) ?s1) @ evs"
        and u: "umount_targets evs = replicate k (target m)" and k: "k \<le> n"
        by blast
      from Failed True t
      have "trace (umount_retry w (Suc n) m s)
          = trace s @ (SysUmount (target m) ?r # SysSleepMs 100 # evs)"
        by (simp add: Let_def)
      with u k show ?thesis
        by (intro exI [of _ "SysUmount (target m) ?r # SysSleepMs 100 # evs"] exI [of _ "Suc k"])
           simp
    next
      case False
      with Failed have "trace (umount_retry w (Suc n) m s) = trace s @ [SysUmount (target m) ?r]"
        by (simp add: Let_def)
      then show ?thesis
        by (intro exI [of _ "[SysUmount (target m) ?r]"] exI [of _ 1]) simp
    qed
  qed
qed


lemma umount_each_trace:
  "\<exists>evs ks. trace (foldl (\<lambda>s' m. umount_retry w 3 m s') s ms) = trace s @ evs
     \<and> length ks = length ms \<and> (\<forall>k \<in> set ks. 1 \<le> k \<and> k \<le> 3)
     \<and> umount_targets evs = concat (map2 (\<lambda>m k. replicate k (target m)) ms ks)"
proof (induction ms arbitrary: s)
  case Nil
  show ?case by (intro exI [of _ "[]"]) simp
next
  case (Cons m ms)
  obtain e1 k where
    a: "trace (umount_retry w 3 m s) = trace s @ e1"
    and b: "umount_targets e1 = replicate k (target m)" and c: "k \<le> 3" "1 \<le> k"
    using umount_retry_trace [of w 3 m s] by auto
  from Cons.IH [of "umount_retry w 3 m s"] obtain e2 ks where
    d: "trace (foldl (\<lambda>s' m. umount_retry w 3 m s') (umount_retry w 3 m s) ms)
        = trace (umount_retry w 3 m s) @ e2"
    and e: "length ks = length ms" "\<forall>k \<in> set ks. 1 \<le> k \<and> k \<le> 3"
    and f: "umount_targets e2 = concat (map2 (\<lambda>m k. replicate k (target m)) ms ks)"
    by blast
  show ?case
    using a b c d e f
    by (intro exI [of _ "e1 @ e2"] exI [of _ "k # ks"]) (simp add: umount_targets_append)
qed



lemma unmountAll_trace: "\<exists>evs. trace (unmountAll w s) = trace s @ evs"
  using umount_each_trace [of w s "rev (active_mounts s)"]
  by (auto simp: unmountAll_def)








lemma umount_retry_nobusy:
  assumes "\<forall>n. umount_errno w n \<noteq> Failed EBUSY"
  shows "\<exists>evs. trace (umount_retry w 3 m s) = trace s @ evs \<and> umount_targets evs = [target m]"
proof (cases "umount_errno w (umount_count (trace s))")
  case Unmounted
  then show ?thesis
    by (simp add: numeral_3_eq_3 Let_def log_def emit_def)
next
  case (Failed e)
  with assms have "e \<noteq> EBUSY" by metis
  with Failed show ?thesis
    by (simp add: numeral_3_eq_3 Let_def emit_def)
qed

lemma umount_each_nobusy:
  assumes "\<forall>n. umount_errno w n \<noteq> Failed EBUSY"
  shows "\<exists>evs. trace (foldl (\<lambda>s' m. umount_retry w 3 m s') s ms) = trace s @ evs
            \<and> umount_targets evs = map target ms"
proof (induction ms arbitrary: s)
  case Nil
  show ?case by simp
next
  case (Cons m ms)
  obtain e1 where a: "trace (umount_retry w 3 m s) = trace s @ e1"
    and b: "umount_targets e1 = [target m]"
    using umount_retry_nobusy [OF assms, of m s] by blast
  obtain e2 where c: "trace (foldl (\<lambda>s' m. umount_retry w 3 m s') (umount_retry w 3 m s) ms)
        = trace (umount_retry w 3 m s) @ e2"
    and d: "umount_targets e2 = map target ms"
    using Cons.IH [of "umount_retry w 3 m s"] by blast
  from a b c d show ?case
    by (intro exI [of _ "e1 @ e2"]) (simp add: umount_targets_append)
qed

section \<open>Concrete states\<close>

lemma running_dev_fields:
  "status running_dev = RUNNING" "\<not> mutex running_dev" "sshd_pid running_dev = 4242"
  "active_mounts running_dev = fixed_mounts ''/var/lib/agi/jails/dev''"
  "\<not> logger running_dev" "jail_path running_dev = ''/var/lib/agi/jails/dev''"
  "start_time running_dev = 1000"
  by (simp_all add: running_dev_def start_def lock_guard_def start_try_def new_JailManager_def
      cfg_dev_def os_ok_def log_eq setResourceLimits_eq mountFilesystems_eq startSshd_eq
      runInitScript_eq Let_def)



lemma new_dev_fields:
  "status (new_JailManager cfg_dev) = STOPPED" "\<not> mutex (new_JailManager cfg_dev)"
  "sshd_pid (new_JailManager cfg_dev) = - 1" "active_mounts (new_JailManager cfg_dev) = []"
  "\<not> logger (new_JailManager cfg_dev)" "trace (new_JailManager cfg_dev) = []"
  "jail_path (new_JailManager cfg_dev) = ''/var/lib/agi/jails/dev''"
  by (simp_all add: new_JailManager_def cfg_dev_def)


section \<open>Calls that only append to the trace\<close>

lemma appendsI: "s' = s\<lparr>trace := trace s @ evs\<rparr> \<Longrightarrow> appends s s'"
  by (simp add: appends_def new_events_def)

lemma appends_refl [simp]: "appends s s"
  by (rule appendsI [of _ _ "[]"]) simp

lemma appends_upd [simp]: "appends s (s\<lparr>trace := trace s @ evs\<rparr>)"
  by (rule appendsI) simp

lemma appendsD: "appends s s' \<Longrightarrow> \<exists>evs. s' = s\<lparr>trace := trace s @ evs\<rparr>"
  unfolding appends_def by (rule exI)

lemma appends_trans: "appends a b \<Longrightarrow> appends b c \<Longrightarrow> appends a c"
proof -
  assume "appends a b" and "appends b c"
  then obtain e1 e2 where b: "b = a\<lparr>trace := trace a @ e1\<rparr>"
    and c: "c = b\<lparr>trace := trace b @ e2\<rparr>"
    by (blast dest: appendsD)
  have "c = a\<lparr>trace := trace a @ (e1 @ e2)\<rparr>"
    by (simp add: c b)
  then show ?thesis by (rule appendsI)
qed

lemma appends_fields:
  assumes "appends s s'"
  shows "status s' = status s" "sshd_pid s' = sshd_pid s" "active_mounts s' = active_mounts s"
    "jail_path s' = jail_path s" "mutex s' = mutex s" "logger s' = logger s"
    "config s' = config s" "start_time s' = start_time s"
    "trace s' = trace s @ new_events s s'"
proof -
  from assms obtain evs where e: "s' = s\<lparr>trace := trace s @ evs\<rparr>"
    by (blast dest: appendsD)
  show "status s' = status s" by (simp add: e)
  show "sshd_pid s' = sshd_pid s" by (simp add: e)
  show "active_mounts s' = active_mounts s" by (simp add: e)
  show "jail_path s' = jail_path s" by (simp add: e)
  show "mutex s' = mutex s" by (simp add: e)
  show "logger s' = logger s" by (simp add: e)
  show "config s' = config s" by (simp add: e)
  show "start_time s' = start_time s" by (simp add: e)
  show "trace s' = trace s @ new_events s s'" by (simp add: e new_events_def)
qed

lemma new_events_trans:
  "appends a b \<Longrightarrow> appends b c \<Longrightarrow> new_events a c = new_events a b @ new_events b c"
proof -
  assume "appends a b" and "appends b c"
  then obtain e1 e2 where b: "b = a\<lparr>trace := trace a @ e1\<rparr>"
    and c: "c = b\<lparr>trace := trace b @ e2\<rparr>"
    by (blast dest: appendsD)
  show ?thesis by (simp add: c b new_events_def)
qed

lemma appends_emit [simp]: "appends s (emit e s)"
  by (simp add: emit_def)




lemma appends_create_directories [simp]: "appends s (state_of (create_directories w d s))"
  by (simp add: create_directories_def)





lemma appends_createDeviceNode: "appends s (createDeviceNode w p ty ma mi s)"
  by (simp add: createDeviceNode_def)

lemma appends_createDeviceNodes: "appends s (createDeviceNodes w s)"
  unfolding createDeviceNodes_def Let_def
  by (intro appends_trans [OF _ appends_createDeviceNode] appends_createDeviceNode)



section \<open>The life-cycle invariant\<close>






lemma fixed_mounts_nonempty [simp]: "fixed_mounts p \<noteq> []"
  by (simp add: fixed_mounts_def)







section \<open>The warnings of create()\<close>

lemma warns_append: "warns (xs @ ys) = warns xs @ warns ys"
  by (induction xs rule: warns.induct) simp_all

lemma new_events_upd [simp]: "new_events s (s\<lparr>trace := trace s @ evs\<rparr>) = evs"
  by (simp add: new_events_def)

lemma new_events_self [simp]: "new_events s s = []"
  by (simp add: new_events_def)

lemma concat_map_Nil [simp]: "concat (map (\<lambda>x. []) xs) = []"
  by (induction xs) simp_all

lemma returned_Some: "returned r = Some v \<Longrightarrow> r = Returned v (state_of r)"
  by (cases r) simp_all

lemma proceeds_and_then:
  assumes "proceeds s r ws1" and "\<And>s1. appends s s1 \<Longrightarrow> proceeds s1 (f s1) ws2"
  shows "proceeds s (and_then r f) (ws1 @ ws2)"
proof -
  let ?s1 = "state_of r"
  from assms(1) obtain v where "returned r = Some v" by (auto simp: proceeds_def)
  then have r: "r = Returned v ?s1" by (rule returned_Some)
  from assms(1) have a: "appends s ?s1" and w: "warns (new_events s ?s1) = ws1"
    by (simp_all add: proceeds_def)
  from assms(2) [OF a] have p: "returned (f ?s1) \<noteq> None"
    and b: "appends ?s1 (state_of (f ?s1))"
    and v: "warns (new_events ?s1 (state_of (f ?s1))) = ws2"
    by (simp_all add: proceeds_def)
  have e: "and_then r f = f ?s1" by (subst r) simp
  show ?thesis
    unfolding proceeds_def e
    using p appends_trans [OF a b] new_events_trans [OF a b] w v
    by (simp add: warns_append)
qed

lemma proceeds_for_each:
  assumes "\<And>x s1. appends s s1 \<Longrightarrow> proceeds s1 (f x s1) (g x)"
  shows "proceeds s (for_each f xs s) (concat (map g xs))"
  using assms
proof (induction xs arbitrary: s)
  case Nil
  show ?case by (simp add: proceeds_def)
next
  case (Cons x xs)
  have first: "proceeds s (f x s) (g x)" by (rule Cons.prems) simp
  have rest: "\<And>s1. appends s s1 \<Longrightarrow> proceeds s1 (for_each f xs s1) (concat (map g xs))"
  proof -
    fix s1 assume a: "appends s s1"
    show "proceeds s1 (for_each f xs s1) (concat (map g xs))"
    proof (rule Cons.IH)
      fix y s2 assume "appends s1 s2"
      with a have "appends s s2" by (rule appends_trans)
      then show "proceeds s2 (f y s2) (g y)" by (rule Cons.prems)
    qed
  qed
  from proceeds_and_then [OF first rest] show ?case by simp
qed

lemma proceeds_create_dir_log:
  assumes "\<forall>d. mkdir_ok w d"
  shows "proceeds s
           (if \<not> path_exists w dir then
              and_then (create_directories w dir s)
                (\<lambda>s2. Returned () (log ''DEBUG'' (''Creating directory: '' @ dir) s2))
            else Returned () s) []"
  using assms by (simp add: proceeds_def create_directories_def emit_def log_eq)

lemma proceeds_createDirectoryStructure:
  assumes "\<forall>d. mkdir_ok w d"
  shows "proceeds s (createDirectoryStructure w s) []"
proof -
  have "proceeds s (createDirectoryStructure w s) (concat (map (\<lambda>d. []) (dirs s)))"
    unfolding createDirectoryStructure_def
    by (rule proceeds_for_each) (rule proceeds_create_dir_log [OF assms])
  then show ?thesis by simp
qed

lemma proceeds_copyBinary:
  assumes "\<forall>d. mkdir_ok w d"
  shows "proceeds s (copyBinary w b s)
           (if logger s \<and> \<not> readable w b then [copy_warning b] else [])"
  using assms
  by (simp add: proceeds_def copyBinary_def create_directories_def emit_def log_eq Let_def
      copy_warning_def)

lemma proceeds_copy_bins:
  assumes "\<forall>d. mkdir_ok w d"
  shows "proceeds s (for_each (copyBinary w) bs s)
           (if logger s then map copy_warning (filter (\<lambda>b. \<not> readable w b) bs) else [])"
proof -
  let ?g = "\<lambda>b. if logger s \<and> \<not> readable w b then [copy_warning b] else []"
  have "proceeds s (for_each (copyBinary w) bs s) (concat (map ?g bs))"
  proof (rule proceeds_for_each)
    fix x s1 assume "appends s s1"
    then have "logger s1 = logger s" by (rule appends_fields)
    with proceeds_copyBinary [OF assms, of s1 x]
    show "proceeds s1 (copyBinary w x s1) (?g x)" by simp
  qed
  moreover have "concat (map ?g bs)
      = (if logger s then map copy_warning (filter (\<lambda>b. \<not> readable w b) bs) else [])"
    by (induction bs) simp_all
  ultimately show ?thesis by simp
qed

lemma proceeds_copy_lib:
  assumes "\<forall>d. mkdir_ok w d"
  shows "proceeds s
     (if path_exists w lib then
        (let dest = jail_path s @ lib; par = parent dest
         in and_then
              (if \<not> path_exists w par then create_directories w par s else Returned () s)
              (\<lambda>s2.
                 case (if readable w lib then
                         Returned ()
                           (log ''DEBUG'' (''Copying library: '' @ lib) (emit (FsWrite dest) s2))
                       else Threw (RuntimeError (''Cannot open file: '' @ lib)) s2) of
                   Threw e s3 \<Rightarrow> Returned () s3
                 | r \<Rightarrow> r))
      else Returned () s) []"
  using assms by (simp add: proceeds_def create_directories_def emit_def log_eq Let_def)

lemma proceeds_copyEssentialLibraries:
  assumes "\<forall>d. mkdir_ok w d"
  shows "proceeds s (copyEssentialLibraries w s) []"
proof -
  have "proceeds s (copyEssentialLibraries w s) (concat (map (\<lambda>l. []) libs))"
    unfolding copyEssentialLibraries_def
    by (rule proceeds_for_each) (rule proceeds_copy_lib [OF assms])
  then show ?thesis by simp
qed

lemma proceeds_copyBaseSystem:
  assumes "\<forall>d. mkdir_ok w d"
  shows "proceeds s (copyBaseSystem w s)
           (if logger s then map copy_warning (filter (\<lambda>b. \<not> readable w b) essential_bins)
            else [])"
proof -
  from proceeds_and_then [OF proceeds_copy_bins [OF assms, of s essential_bins],
      of "copyEssentialLibraries w" "[]"] proceeds_copyEssentialLibraries [OF assms]
  show ?thesis by (simp add: copyBaseSystem_def)
qed

lemma warns_createDeviceNode: "warns (new_events s (createDeviceNode w p ty ma mi s)) = []"
  by (simp add: createDeviceNode_def emit_def new_events_def)

lemma warns_createDeviceNodes: "warns (new_events s (createDeviceNodes w s)) = []"
proof -
  let ?p = "jail_path s"
  let ?s1 = "createDeviceNode w (?p @ ''/dev/null'') (CHR ''c'') 1 3 s"
  let ?s2 = "createDeviceNode w (?p @ ''/dev/zero'') (CHR ''c'') 1 5 ?s1"
  let ?s3 = "createDeviceNode w (?p @ ''/dev/random'') (CHR ''c'') 1 8 ?s2"
  let ?s4 = "createDeviceNode w (?p @ ''/dev/urandom'') (CHR ''c'') 1 9 ?s3"
  let ?s5 = "createDeviceNode w (?p @ ''/dev/tty'') (CHR ''c'') 5 0 ?s4"
  note a = appends_createDeviceNode
  have "new_events s ?s5
      = new_events s ?s1 @ new_events ?s1 ?s2 @ new_events ?s2 ?s3 @ new_events ?s3 ?s4
        @ new_events ?s4 ?s5"
    using new_events_trans [OF a a, of s]
      new_events_trans [OF appends_trans [OF a a] a, of s]
      new_events_trans [OF appends_trans [OF appends_trans [OF a a] a] a, of s]
      new_events_trans [OF appends_trans [OF appends_trans [OF appends_trans [OF a a] a] a] a, of s]
    by simp
  then show ?thesis
    by (simp add: createDeviceNodes_def Let_def warns_append warns_createDeviceNode)
qed

lemma proceeds_generateSshConfig:
  assumes "\<forall>d. mkdir_ok w d"
  shows "proceeds s (generateSshConfig w s) []"
  using assms
  by (simp add: proceeds_def generateSshConfig_def create_directories_def emit_def log_eq Let_def)

lemma returned_and_then: "returned (and_then r f) = Some v \<Longrightarrow> \<exists>s1. returned (f s1) = Some v"
  by (cases r) auto

lemma proceeds_after:
  assumes "appends s s0" and "warns (new_events s s0) = ws0" and "proceeds s0 r ws"
  shows "proceeds s r (ws0 @ ws)"
proof -
  from assms(3) have p: "returned r \<noteq> None" and a: "appends s0 (state_of r)"
    and w: "warns (new_events s0 (state_of r)) = ws"
    by (simp_all add: proceeds_def)
  have "appends s (state_of r)" using assms(1) a by (rule appends_trans)
  moreover have "new_events s (state_of r) = new_events s s0 @ new_events s0 (state_of r)"
    using assms(1) a by (rule new_events_trans)
  ultimately show ?thesis using p w assms(2) by (simp add: proceeds_def warns_append)
qed

lemma create_try_value: "returned (create_try w s) = Some v \<Longrightarrow> v = True"
  unfolding create_try_def
  by (auto dest!: returned_and_then)

lemma proceeds_create_try:
  assumes "\<forall>d. mkdir_ok w d"
  shows "proceeds s (create_try w s)
           (if logger s then map copy_warning (filter (\<lambda>b. \<not> readable w b) essential_bins)
            else [])"
proof -
  let ?W = "\<lambda>s. if logger s then map copy_warning (filter (\<lambda>b. \<not> readable w b) essential_bins)
                 else []"
  let ?s0 = "log ''INFO'' (''Starting to create jail environment: '' @ name (config s)) s"
  have s0: "appends s ?s0" "warns (new_events s ?s0) = []" "logger ?s0 = logger s"
    by (simp_all add: log_eq)
  have A: "proceeds s (createDirectoryStructure w ?s0) []"
    using proceeds_after [OF s0(1) s0(2) proceeds_createDirectoryStructure [OF assms, of ?s0]]
    by simp
  have K: "\<And>s3. proceeds s3
              (Returned True
                 (log ''INFO'' (''Jail environment created successfully: '' @ jail_path s3)
                    (createInitScripts s3))) []"
    by (simp add: proceeds_def createInitScripts_def emit_def log_eq)
  have C: "\<And>s2. proceeds s2 (generateSshConfig w (createDeviceNodes w s2)) []"
  proof -
    fix s2
    from proceeds_after [OF appends_createDeviceNodes warns_createDeviceNodes
        proceeds_generateSshConfig [OF assms], of s2 w]
    show "proceeds s2 (generateSshConfig w (createDeviceNodes w s2)) []" by simp
  qed
  have CK: "\<And>s2. proceeds s2
              (and_then (generateSshConfig w (createDeviceNodes w s2))
                 (\<lambda>s3. Returned True
                    (log ''INFO'' (''Jail environment created successfully: '' @ jail_path s3)
                       (createInitScripts s3)))) []"
    using proceeds_and_then [OF C K] by simp
  have BCK: "\<And>s1. appends s s1 \<Longrightarrow> proceeds s1
              (and_then (copyBaseSystem w s1)
                 (\<lambda>s2. and_then (generateSshConfig w (createDeviceNodes w s2))
                    (\<lambda>s3. Returned True
                       (log ''INFO'' (''Jail environment created successfully: '' @ jail_path s3)
                          (createInitScripts s3))))) (?W s)"
  proof -
    fix s1 assume "appends s s1"
    then have l: "logger s1 = logger s" by (rule appends_fields)
    from proceeds_and_then [OF proceeds_copyBaseSystem [OF assms, of s1] CK] l
    show "proceeds s1
              (and_then (copyBaseSystem w s1)
                 (\<lambda>s2. and_then (generateSshConfig w (createDeviceNodes w s2))
                    (\<lambda>s3. Returned True
                       (log ''INFO'' (''Jail environment created successfully: '' @ jail_path s3)
                          (createInitScripts s3))))) (?W s)"
      by simp
  qed
  from proceeds_and_then [OF A BCK] show ?thesis
    by (simp add: create_try_def)
qed

lemma create_effect:
  assumes "\<not> mutex s" and "\<forall>d. mkdir_ok w d"
  shows "returned (create w s) = Some True
       \<and> warns (new_events s (state_of (create w s)))
         = (if logger s then map copy_warning (filter (\<lambda>b. \<not> readable w b) essential_bins)
            else [])"
proof -
  let ?b = "s\<lparr>mutex := True\<rparr>"
  let ?s1 = "state_of (create_try w ?b)"
  from proceeds_create_try [OF assms(2), of ?b]
  have p: "returned (create_try w ?b) \<noteq> None" and a: "appends ?b ?s1"
    and w: "warns (new_events ?b ?s1)
            = (if logger s then map copy_warning (filter (\<lambda>b. \<not> readable w b) essential_bins)
               else [])"
    by (simp_all add: proceeds_def)
  from p obtain v where "returned (create_try w ?b) = Some v" by auto
  with create_try_value [of w ?b v] have r: "create_try w ?b = Returned True ?s1"
    by (simp add: returned_Some)
  have c: "create w s = Returned True (?s1\<lparr>mutex := False\<rparr>)"
    using assms(1) by (simp add: create_def lock_guard_def, subst r, simp)
  from a obtain evs where e: "?s1 = ?b\<lparr>trace := trace ?b @ evs\<rparr>"
    by (blast dest: appendsD)
  have n1: "new_events ?b ?s1 = evs" by (subst e) (simp add: new_events_def)
  have n2: "new_events s (?s1\<lparr>mutex := False\<rparr>) = evs"
    by (subst e) (simp add: new_events_def)
  from c w n1 n2 show ?thesis by simp
qed

section \<open>Further concrete states\<close>









lemma no_root_dev:
  "\<not> in_child (start os_no_root (new_JailManager cfg_dev))"
  "status (state_of (start os_no_root (new_JailManager cfg_dev))) = ERROR"
  "active_mounts (state_of (start os_no_root (new_JailManager cfg_dev))) = []"
  by (simp_all add: start_def lock_guard_def start_try_def new_JailManager_def
      os_no_root_def os_ok_def log_eq Let_def)






section \<open>destroy() and the mutex\<close>

text \<open>
  C1. \<open>destroy()\<close> locks \<open>mutex_\<close> and then calls \<open>stop()\<close>, which locks the same
  non-recursive mutex again: in every state of the jail and whatever the system answers,
  \<open>destroy()\<close> never returns and never throws. It stays blocked with the mutex held and
  nothing else changed.
\<close>

theorem destroy_self_deadlock: "destroy w s = Blocked (s\<lparr>mutex := True\<rparr>)"
proof (cases "mutex s")
  case True
  then have "s\<lparr>mutex := True\<rparr> = s" by simp
  with True show ?thesis by (simp add: destroy_def lock_guard_def)
next
  case False
  have "stop w (s\<lparr>mutex := True\<rparr>) = Blocked (s\<lparr>mutex := True\<rparr>)"
    by (rule stop_blocked) simp
  with False show ?thesis
    by (simp add: destroy_def lock_guard_def destroy_try_def)
qed

section \<open>start()\<close>

text \<open>
  C2, as claimed: \<open>start()\<close> on a STOPPED jail whose root is missing fails and leaves the
  status at STOPPED. The code sets STARTING before it looks for the root, and its handler
  sets ERROR: for the new jail \<open>dev\<close> with no root on disk, \<open>start()\<close> returns false and
  the status is no longer STOPPED.
\<close>

theorem start_missing_root_counterexample:
  "status (new_JailManager cfg_dev) = STOPPED
 \<and> \<not> path_exists os_no_root (jail_path (new_JailManager cfg_dev))
 \<and> returned (start os_no_root (new_JailManager cfg_dev)) = Some False
 \<and> status (state_of (start os_no_root (new_JailManager cfg_dev))) \<noteq> STOPPED"
  by (simp add: start_def lock_guard_def start_try_def log_def Let_def os_no_root_def
      os_ok_def new_JailManager_def)

text \<open>
  C2, amended: for every jail whose root does not exist on disk and whose status is
  STOPPED, \<open>start()\<close> (called with the lock free) returns failure and sets the status to
  ERROR; it makes no system call, and the active mounts and the process id stay as they
  were.
\<close>

theorem start_missing_root_sets_error:
  assumes "\<not> path_exists w (jail_path s)" and "status s = STOPPED" and "\<not> mutex s"
  shows "returned (start w s) = Some False
       \<and> status (state_of (start w s)) = ERROR
       \<and> active_mounts (state_of (start w s)) = active_mounts s
       \<and> sshd_pid (state_of (start w s)) = sshd_pid s
       \<and> syscalls (trace (state_of (start w s))) = syscalls (trace s)"
  using assms
  by (simp add: start_def lock_guard_def start_try_def log_def emit_def syscalls_def Let_def)

theorem start_missing_root_sets_error_witness:
  "\<not> path_exists os_no_root (jail_path (setLogger True (new_JailManager cfg_dev)))
 \<and> status (setLogger True (new_JailManager cfg_dev)) = STOPPED
 \<and> \<not> mutex (setLogger True (new_JailManager cfg_dev))
 \<and> returned (start os_no_root (setLogger True (new_JailManager cfg_dev))) = Some False
 \<and> status (state_of (start os_no_root (setLogger True (new_JailManager cfg_dev)))) = ERROR
 \<and> syscalls (trace (state_of (start os_no_root (setLogger True (new_JailManager cfg_dev))))) = []"
  using start_missing_root_sets_error
          [of os_no_root "setLogger True (new_JailManager cfg_dev)"]
  by (simp add: os_no_root_def os_ok_def setLogger_def new_JailManager_def syscalls_def)

text \<open>
  C10. For every jail whose status is RUNNING, \<open>start()\<close> (called with the lock free)
  returns success and does nothing but log a warning: status, active mounts, process id
  and start time are unchanged and no system call is made, so nothing is mounted or
  forked again.
\<close>

theorem start_running_idempotent:
  assumes "status s = RUNNING" and "\<not> mutex s"
  shows "returned (start w s) = Some True
       \<and> status (state_of (start w s)) = RUNNING
       \<and> active_mounts (state_of (start w s)) = active_mounts s
       \<and> length (active_mounts (state_of (start w s))) = length (active_mounts s)
       \<and> sshd_pid (state_of (start w s)) = sshd_pid s
       \<and> start_time (state_of (start w s)) = start_time s
       \<and> syscalls (trace (state_of (start w s))) = syscalls (trace s)"
  using assms by (simp add: start_def lock_guard_def log_def emit_def syscalls_def)

theorem start_running_idempotent_witness:
  "status running_dev = RUNNING \<and> \<not> mutex running_dev
 \<and> returned (start os_ok running_dev) = Some True
 \<and> length (active_mounts (state_of (start os_ok running_dev))) = 4
 \<and> sshd_pid (state_of (start os_ok running_dev)) = 4242
 \<and> syscalls (trace (state_of (start os_ok running_dev))) = syscalls (trace running_dev)"
  using start_running_idempotent [of running_dev os_ok]
  by (simp add: running_dev_fields fixed_mounts_def)

section \<open>execute()\<close>

text \<open>
  C7, as claimed: \<open>execute\<close> on a jail that is not RUNNING reports the failure as a result
  value. On the new (STOPPED) jail \<open>dev\<close> the call does not return a value: it leaves by
  a \<open>JailError\<close>, which \<open>execute\<close> does not catch.
\<close>

theorem execute_stopped_counterexample:
  "status (new_JailManager cfg_dev) \<noteq> RUNNING
 \<and> returned (execute os_ok ''ls'' (new_JailManager cfg_dev)) = None
 \<and> execute os_ok ''ls'' (new_JailManager cfg_dev)
   = Threw (JailError ''Jail is not running, cannot execute command'') (new_JailManager cfg_dev)"
  by (simp add: execute_def new_JailManager_def)

text \<open>
  C7, amended: for every jail whose status is not RUNNING, \<open>execute(command)\<close> fails with
  the "not running" \<open>JailError\<close> before any fork (the state and the trace are untouched),
  and the error leaves \<open>execute\<close> as an exception thrown to the caller.
\<close>

theorem execute_not_running_throws:
  assumes "status s \<noteq> RUNNING"
  shows "execute w command s
       = Threw (JailError ''Jail is not running, cannot execute command'') s"
  using assms by (simp add: execute_def)

theorem execute_not_running_throws_witness:
  "status (state_of (start os_no_root (new_JailManager cfg_dev))) \<noteq> RUNNING
 \<and> execute os_ok ''id'' (state_of (start os_no_root (new_JailManager cfg_dev)))
   = Threw (JailError ''Jail is not running, cannot execute command'')
       (state_of (start os_no_root (new_JailManager cfg_dev)))"
proof -
  have "status (state_of (start os_no_root (new_JailManager cfg_dev))) \<noteq> RUNNING"
    by (simp add: start_def lock_guard_def start_try_def log_def Let_def os_no_root_def
        os_ok_def new_JailManager_def)
  with execute_not_running_throws [of "state_of (start os_no_root (new_JailManager cfg_dev))"
      os_ok "''id''"]
  show ?thesis by simp
qed

section \<open>Teardown order and retries\<close>

text \<open>
  C5. \<open>unmountAll\<close> calls \<open>umount\<close> on the targets of the active mounts in exactly the
  reverse order of the list: each record, from the last to the first, gets between one
  and three attempts in a row. When no call reports busy, the attempts are exactly the
  targets of the reversed list; for the mounts [proc, sysfs, devpts, tmp-bind] of a
  started jail that is [tmp-bind, devpts, sysfs, proc].
\<close>

theorem unmountAll_reverse_order:
  "(\<exists>ks. length ks = length (active_mounts s) \<and> (\<forall>k \<in> set ks. 1 \<le> k \<and> k \<le> 3)
      \<and> umount_targets (new_events s (unmountAll w s))
        = concat (map2 (\<lambda>m k. replicate k (target m)) (rev (active_mounts s)) ks))
 \<and> ((\<forall>n. umount_errno w n \<noteq> Failed EBUSY) \<longrightarrow>
      umount_targets (new_events s (unmountAll w s)) = map target (rev (active_mounts s)))"
proof (intro conjI impI)
  let ?ms = "rev (active_mounts s)"
  obtain evs ks where
    a: "trace (foldl (\<lambda>s' m. umount_retry w 3 m s') s ?ms) = trace s @ evs"
    and b: "length ks = length ?ms" "\<forall>k \<in> set ks. 1 \<le> k \<and> k \<le> 3"
    and c: "umount_targets evs = concat (map2 (\<lambda>m k. replicate k (target m)) ?ms ks)"
    using umount_each_trace [of w s ?ms] by blast
  from a have "new_events s (unmountAll w s) = evs"
    by (simp add: unmountAll_def new_events_def)
  with b c
  show "\<exists>ks. length ks = length (active_mounts s) \<and> (\<forall>k \<in> set ks. 1 \<le> k \<and> k \<le> 3)
      \<and> umount_targets (new_events s (unmountAll w s))
        = concat (map2 (\<lambda>m k. replicate k (target m)) (rev (active_mounts s)) ks)"
    by auto
next
  let ?ms = "rev (active_mounts s)"
  assume nb: "\<forall>n. umount_errno w n \<noteq> Failed EBUSY"
  obtain evs where
    a: "trace (foldl (\<lambda>s' m. umount_retry w 3 m s') s ?ms) = trace s @ evs"
    and b: "umount_targets evs = map target ?ms"
    using umount_each_nobusy [OF nb, of s ?ms] by blast
  from a have "new_events s (unmountAll w s) = evs"
    by (simp add: unmountAll_def new_events_def)
  with b show "umount_targets (new_events s (unmountAll w s)) = map target (rev (active_mounts s))"
    by simp
qed

theorem unmountAll_reverse_order_witness:
  "map target (active_mounts running_dev)
   = [''/var/lib/agi/jails/dev/proc'', ''/var/lib/agi/jails/dev/sys'',
      ''/var/lib/agi/jails/dev/dev/pts'', ''/var/lib/agi/jails/dev/tmp'']
 \<and> umount_targets (new_events running_dev (unmountAll os_ok running_dev))
   = [''/var/lib/agi/jails/dev/tmp'', ''/var/lib/agi/jails/dev/dev/pts'',
      ''/var/lib/agi/jails/dev/sys'', ''/var/lib/agi/jails/dev/proc'']"
  using unmountAll_reverse_order [of running_dev os_ok]
  by (simp add: running_dev_fields fixed_mounts_def os_ok_def)



section \<open>Invariants of the reachable states\<close>

text \<open>
  The reachable states are the states between calls of the public methods. These are the
  states that \<open>getRuntimeInfo\<close> can show, since it takes the lock that the life-cycle
  methods hold while they run.
\<close>






section \<open>destroy() as documented\<close>

text \<open>
  C8. The claim is what the comments of \<open>destroy()\<close> describe: stop first, unmount again,
  delete the directory, report failure. The code does not get there. On the running jail
  \<open>dev\<close>, with its root on disk and a system where the deletion would succeed,
  \<open>destroy()\<close> returns nothing: it is blocked in the lock of \<open>stop()\<close>, the service has
  not been signalled (the jail is still RUNNING with its pid), and no \<open>umount\<close> and no
  deletion has been made.
\<close>

theorem destroy_running_blocks:
  "status running_dev = RUNNING \<and> \<not> mutex running_dev
 \<and> path_exists os_ok (jail_path running_dev) \<and> remove_all_ok os_ok
 \<and> returned (destroy os_ok running_dev) = None
 \<and> destroy os_ok running_dev = Blocked (running_dev\<lparr>mutex := True\<rparr>)
 \<and> status (state_of (destroy os_ok running_dev)) = RUNNING
 \<and> sshd_pid (state_of (destroy os_ok running_dev)) = 4242
 \<and> new_events running_dev (state_of (destroy os_ok running_dev)) = []"
  by (simp add: destroy_def lock_guard_def destroy_try_def stop_blocked running_dev_fields
      os_ok_def new_events_def)

section \<open>create()\<close>

text \<open>
  C9, as claimed: a missing mandatory tool aborts \<open>create()\<close>, and a missing optional
  library logs a warning. With a logger set and a system where no file can be read and
  no path exists (so \<open>/bin/bash\<close> and \<open>libc.so.6\<close> are missing), \<open>create()\<close> returns
  success, and its warnings are those for the eight executables: none is about a
  library.
\<close>

theorem create_missing_tool_counterexample:
  "\<not> readable os_no_files ''/bin/bash'' \<and> ''/bin/bash'' \<in> set essential_bins
 \<and> \<not> path_exists os_no_files ''/lib/x86_64-linux-gnu/libc.so.6''
 \<and> ''/lib/x86_64-linux-gnu/libc.so.6'' \<in> set libs
 \<and> returned (create os_no_files (setLogger True (new_JailManager cfg_dev))) = Some True
 \<and> warns (new_events (setLogger True (new_JailManager cfg_dev))
            (state_of (create os_no_files (setLogger True (new_JailManager cfg_dev)))))
   = map copy_warning essential_bins"
  using create_effect [of "setLogger True (new_JailManager cfg_dev)" os_no_files]
  by (simp add: os_no_files_def os_ok_def setLogger_def new_JailManager_def essential_bins_def
      libs_def)

text \<open>
  C9, amended: during \<open>create()\<close>, copying base executables and shared libraries is
  best-effort per asset and no missing asset aborts it. Provided every directory can be
  created, \<open>create()\<close> (called with the lock free) returns success whatever can be read,
  and the warnings it logs are exactly one "Cannot copy binary" warning for each base
  executable that cannot be read (none when no logger is set): an unreadable executable
  logs a warning and \<open>create()\<close> continues, and a library that is missing or cannot be
  read is skipped without a warning.
\<close>

theorem create_best_effort:
  assumes "\<not> mutex s" and "\<forall>d. mkdir_ok w d"
  shows "returned (create w s) = Some True
       \<and> warns (new_events s (state_of (create w s)))
         = (if logger s then map copy_warning (filter (\<lambda>b. \<not> readable w b) essential_bins)
            else [])"
  using assms by (rule create_effect)

theorem create_best_effort_witness:
  "\<not> mutex (setLogger True (new_JailManager cfg_dev))
 \<and> returned (create (os_ok\<lparr>readable := (\<lambda>p. p \<noteq> ''/bin/ls'')\<rparr>)
              (setLogger True (new_JailManager cfg_dev))) = Some True
 \<and> warns (new_events (setLogger True (new_JailManager cfg_dev))
            (state_of (create (os_ok\<lparr>readable := (\<lambda>p. p \<noteq> ''/bin/ls'')\<rparr>)
                         (setLogger True (new_JailManager cfg_dev)))))
   = [''Cannot copy binary: /bin/ls - Cannot open file: /bin/ls'']"
  using create_best_effort [of "setLogger True (new_JailManager cfg_dev)"
      "os_ok\<lparr>readable := (\<lambda>p. p \<noteq> ''/bin/ls'')\<rparr>"]
  by (simp add: os_ok_def setLogger_def new_JailManager_def essential_bins_def copy_warning_def)


end
